theory Spec2Isabelle
  imports Complex_Main
begin

section \<open>Data model (src/types/payment.types.ts)\<close>

text \<open>
  Instants are the time values of JavaScript \<open>Date\<close> objects, milliseconds since the
  epoch. Amounts are JavaScript numbers that the request schema has checked to be
  positive integers: an \<open>int\<close> stands for the number of that value, and a product the
  code computes on them is rounded to binary64 as the code's is (\<open>binary64\<close> below).
\<close>

type_synonym instant = int

datatype Currency = KES | UGX | RWF | ZMW | ZAR

datatype PaymentGateway = MPESA | AIRTEL

text \<open>\<open>PaymentTransaction.status\<close>: "pending" | "processing" | "completed" | "failed".\<close>

datatype Status = Pending | Processing | Completed | Failed

text \<open>\<open>PaymentHubWebhook.status\<close>: z.enum(["completed", "failed", "pending"]).\<close>

datatype WebhookStatus = WCompleted | WFailed | WPending

text \<open>The assignment \<open>transaction.status = webhook.status\<close> embeds one enum in the other.\<close>

fun status_of :: "WebhookStatus \<Rightarrow> Status" where
  "status_of WCompleted = Completed"
| "status_of WFailed = Failed"
| "status_of WPending = Pending"

text \<open>\<open>AspinPaymentUpdate.status\<close>: z.enum(["Succeeded", "Failed"]).\<close>

datatype AspinStatus = Succeeded | AspinFailed

type_synonym metadata = "(string \<times> string) list"

record InitiatePaymentRequest =
  req_policy_guid :: string
  req_amount :: int
  req_currency :: Currency
  req_msisdn :: string
  req_customer_id :: "string option"
  req_external_reference :: "string option"
  req_description :: "string option"
  req_metadata :: "metadata option"

record PaymentTransaction =
  transactionId :: string
  policyGuid :: string
  txn_amount :: int
  txn_currency :: Currency
  txn_msisdn :: string
  txn_status :: Status
  gateway :: PaymentGateway
  gatewayReference :: "string option"
  mnoReference :: "string option"
  createdAt :: instant
  updatedAt :: instant
  txn_metadata :: "metadata option"

record PaymentHubWebhook =
  transaction_id :: string
  wh_status :: WebhookStatus
  wh_amount :: int
  wh_currency :: Currency
  wh_timestamp :: string
  wh_signature :: "string option"
  wh_policy_guid :: "string option"
  wh_mno_reference :: "string option"

text \<open>
  \<open>amount_in_cents\<close> is the result of a multiplication: \<open>None\<close> stands for an
  infinite product.
\<close>

record AspinPaymentUpdate =
  policy_guid :: string
  amount_in_cents :: "int option"
  mno_reference :: string
  status :: AspinStatus
  channel :: string
  effected_at :: string

text \<open>The fields of the OAuth2 token response that the service reads.\<close>

record AspinTokenResponse =
  access_token :: string
  expires_in :: int

text \<open>
  The object \<open>handleWebhook\<close> stores as the idempotency response:
  \<open>{ processed: true, timestamp: new Date().toISOString(), status: webhook.status }\<close>.
  An object is truthy in JavaScript, so \<open>if (existing)\<close> holds exactly when the
  ledger returned a response.
\<close>

record WebhookReceipt =
  processed :: bool
  receipt_timestamp :: instant
  receipt_status :: WebhookStatus

text \<open>\<open>expiresAt\<close> is a \<open>Date\<close> that arithmetic has set: \<open>None\<close> is the invalid date.\<close>

record IdempotencyRecord =
  key :: string
  response :: WebhookReceipt
  expiresAt :: "instant option"

text \<open>
  Every \<open>throw\<close> of the services, by its message:
  \<^item> \<open>InvalidAmount\<close>: "Invalid payment amount. KES 5,000 required for this policy";
  \<^item> \<open>TransactionNotFound id\<close>: "Transaction not found: id";
  \<^item> \<open>PaymentHubTimeout\<close>: "PaymentHub timeout";
  \<^item> \<open>ZodError\<close>: a schema's \<open>parse\<close> rejecting its argument;
  \<^item> \<open>AuthenticationFailed\<close>: "Failed to authenticate with ASPIn";
  \<^item> \<open>NotifyFailed\<close>: "Failed to notify ASPIn of payment status".
\<close>

datatype error =
    InvalidAmount
  | TransactionNotFound string
  | PaymentHubTimeout
  | ZodError
  | AuthenticationFailed
  | NotifyFailed

section \<open>Strings of numbers\<close>

definition digit_chr :: "nat \<Rightarrow> char" where
  "digit_chr n = ''0123456789'' ! (n mod 10)"

text \<open>The decimal rendering of a natural number in a template literal.\<close>

fun digits10 :: "nat \<Rightarrow> string" where
  "digits10 n = (if n < 10 then [digit_chr n] else digits10 (n div 10) @ [digit_chr n])"

declare digits10.simps [simp del]

text \<open>\<open>s.padStart(2, "0")\<close>.\<close>

definition padStart2 :: "string \<Rightarrow> string" where
  "padStart2 s = replicate (2 - length s) (CHR ''0'') @ s"

section \<open>Numbers and dates of the platform\<close>

text \<open>The number of binary digits of a natural number.\<close>

fun bit_length :: "nat \<Rightarrow> nat" where
  "bit_length n = (if n = 0 then 0 else Suc (bit_length (n div 2)))"

declare bit_length.simps [simp del]

text \<open>
  The binary64 number nearest to an integer, ties to the even significand of 53 bits;
  \<open>None\<close> when the rounded magnitude reaches \<open>2 ^ 1024\<close>, which is an infinity.
  Integers below \<open>2 ^ 53\<close> in magnitude are their own binary64 number.
\<close>

definition binary64 :: "int \<Rightarrow> int option" where
  "binary64 v =
     (let m = nat \<bar>v\<bar>;
          q = 2 ^ (bit_length m - 53);
          d = m div q;
          r = m mod q;
          rounded = (if q < 2 * r \<or> (2 * r = q \<and> odd d) then d + 1 else d) * q
      in if 2 ^ 1024 \<le> rounded then None else Some (sgn v * int rounded))"

text \<open>
  The host's time zone, as the two readings ECMAScript takes of it: the offset of local
  time at an instant given in UTC (\<open>LocalTZA(t, true)\<close>), and at an instant given in
  local time (\<open>LocalTZA(t, false)\<close>), both in milliseconds.
\<close>

record TimeZone =
  LocalTZA_utc :: "instant \<Rightarrow> int"
  LocalTZA_local :: "instant \<Rightarrow> int"

text \<open>\<open>TimeClip\<close>: a time value beyond 8.64e15 ms makes the invalid date.\<close>

definition TimeClip :: "int \<Rightarrow> instant option" where
  "TimeClip t = (if 8640000000000000 < \<bar>t\<bar> then None else Some t)"

text \<open>
  \<open>d.setSeconds(d.getSeconds() + n)\<close> on a date of time value \<open>t\<close>: the seconds
  field of the local time is moved \<open>n\<close> seconds on, and the local time so made is read
  back as an instant. \<open>n = None\<close> is a number that is not finite (\<open>NaN\<close>, an
  infinity), which makes the invalid date.
\<close>

definition setSeconds_plus :: "TimeZone \<Rightarrow> instant \<Rightarrow> int option \<Rightarrow> instant option" where
  "setSeconds_plus tz t n =
     (case n of
        None \<Rightarrow> None
      | Some n' \<Rightarrow>
          let local = t + LocalTZA_utc tz t;
              moved = local + n' * 1000
          in TimeClip (moved - LocalTZA_local tz moved))"

text \<open>
  \<open>e < new Date()\<close> for a date \<open>e\<close> that may be invalid: the comparison with the
  invalid date is false.
\<close>

definition expired_at :: "instant option \<Rightarrow> instant \<Rightarrow> bool" where
  "expired_at e now = (case e of None \<Rightarrow> False | Some x \<Rightarrow> x < now)"


section \<open>Idempotency ledger (src/services/idempotency.service.ts)\<close>

text \<open>
  \<open>ttl\<close> is \<open>config.idempotency.ttl\<close>, the result of \<open>parseInt\<close>: an integer, or
  \<open>None\<close> for a number that is not finite.
\<close>

record IdempotencyService =
  store :: "string \<rightharpoonup> IdempotencyRecord"
  ttl :: "int option"

text \<open>\<open>config.idempotency.ttl\<close> when \<open>IDEMPOTENCY_TTL\<close> is not set.\<close>

definition default_ttl :: int where
  "default_ttl = 86400"

text \<open>
  \<open>get(key)\<close>, with \<open>now\<close> the value of \<open>new Date()\<close> it reads: an expired
  record is deleted and reported as absent.
\<close>

definition idempotency_get ::
  "IdempotencyService \<Rightarrow> instant \<Rightarrow> string \<Rightarrow> WebhookReceipt option \<times> IdempotencyService" where
  "idempotency_get s now k =
     (case store s k of
        None \<Rightarrow> (None, s)
      | Some record \<Rightarrow>
          if expired_at (expiresAt record) now
          then (None, s\<lparr>store := (store s)(k := None)\<rparr>)
          else (Some (response record), s))"

text \<open>
  \<open>set(key, response)\<close>, in the host's time zone: \<open>expiresAt\<close> is \<open>new Date()\<close>
  with \<open>setSeconds(getSeconds() + this.ttl)\<close> applied.
\<close>

definition idempotency_set ::
  "TimeZone \<Rightarrow> IdempotencyService \<Rightarrow> instant \<Rightarrow> string \<Rightarrow> WebhookReceipt \<Rightarrow> IdempotencyService" where
  "idempotency_set tz s now k resp =
     s\<lparr>store := (store s)(k \<mapsto>
          \<lparr>key = k, response = resp, expiresAt = setSeconds_plus tz now (ttl s)\<rparr>)\<rparr>"

text \<open>\<open>cleanup()\<close>, run by the hourly timer: every expired record is deleted.\<close>

definition cleanup :: "IdempotencyService \<Rightarrow> instant \<Rightarrow> IdempotencyService" where
  "cleanup s now =
     s\<lparr>store := (\<lambda>k. case store s k of
                        None \<Rightarrow> None
                      | Some record \<Rightarrow>
                          if expired_at (expiresAt record) now then None else Some record)\<rparr>"

text \<open>The ledger answers for \<open>k\<close> at \<open>now\<close>: a record is stored and has not expired.\<close>

definition ledger_holds :: "IdempotencyService \<Rightarrow> instant \<Rightarrow> string \<Rightarrow> bool" where
  "ledger_holds s now k =
     (case store s k of
        None \<Rightarrow> False
      | Some record \<Rightarrow> \<not> expired_at (expiresAt record) now)"

section \<open>Credential cache (AspinAuthService)\<close>

text \<open>
  \<open>oauth_requests\<close> is a ghost counter of the POSTs to \<open>/oauth/token\<close>.
  \<open>tokenExpiry = None\<close> is \<open>null\<close> or the invalid date: the guard, the only reader
  of the field, is false for both.
\<close>

record AspinAuthService =
  accessToken :: "string option"
  tokenExpiry :: "instant option"
  oauth_requests :: nat

text \<open>
  The guard of \<open>getAccessToken\<close>:
  \<open>this.accessToken && this.tokenExpiry && this.tokenExpiry > new Date()\<close>.
  An empty string is falsy.
\<close>

definition token_valid :: "AspinAuthService \<Rightarrow> instant \<Rightarrow> bool" where
  "token_valid a now =
     (case accessToken a of
        None \<Rightarrow> False
      | Some tok \<Rightarrow>
          tok \<noteq> [] \<and> (case tokenExpiry a of None \<Rightarrow> False | Some e \<Rightarrow> now < e))"

text \<open>
  \<open>authenticate\<close> runs synchronously until it awaits the POST it has issued
  (\<open>authenticate_send\<close>) and continues when the reply arrives (\<open>authenticate_resume\<close>).
  A reply \<open>None\<close> is a rejected POST or a body the token schema refuses: both reach the
  \<open>catch\<close>. \<open>now\<close> is the \<open>new Date()\<close> read for the expiry, which is set by
  \<open>setSeconds(getSeconds() + tokenData.expires_in - 60)\<close> in the host's time zone.
\<close>

definition authenticate_send :: "AspinAuthService \<Rightarrow> AspinAuthService" where
  "authenticate_send a = a\<lparr>oauth_requests := Suc (oauth_requests a)\<rparr>"

definition authenticate_resume ::
  "TimeZone \<Rightarrow> AspinAuthService \<Rightarrow> AspinTokenResponse option \<Rightarrow> instant \<Rightarrow> (error + string) \<times> AspinAuthService" where
  "authenticate_resume tz a reply now =
     (case reply of
        None \<Rightarrow> (Inl AuthenticationFailed, a)
      | Some tokenData \<Rightarrow>
          (Inr (access_token tokenData),
           a\<lparr>accessToken := Some (access_token tokenData),
             tokenExpiry := setSeconds_plus tz now (Some (expires_in tokenData - 60))\<rparr>))"

record auth_env =
  auth_zone :: TimeZone
  t_check :: instant
  oauth_reply :: "AspinTokenResponse option"
  t_granted :: instant

definition authenticate :: "AspinAuthService \<Rightarrow> auth_env \<Rightarrow> (error + string) \<times> AspinAuthService" where
  "authenticate a env =
     authenticate_resume (auth_zone env) (authenticate_send a) (oauth_reply env) (t_granted env)"

text \<open>One call of \<open>getAccessToken\<close> that runs to its end before another starts.\<close>

definition getAccessToken :: "AspinAuthService \<Rightarrow> auth_env \<Rightarrow> (error + string) \<times> AspinAuthService" where
  "getAccessToken a env =
     (case accessToken a of
        None \<Rightarrow> authenticate a env
      | Some tok \<Rightarrow> if token_valid a (t_check env) then (Inr tok, a) else authenticate a env)"

text \<open>\<open>clearToken()\<close>.\<close>

definition clearToken :: "AspinAuthService \<Rightarrow> AspinAuthService" where
  "clearToken a = a\<lparr>accessToken := None, tokenExpiry := None\<rparr>"

subsection \<open>Overlapping calls\<close>

text \<open>
  JavaScript runs each call up to its first \<open>await\<close> without interruption. A call of
  \<open>getAccessToken\<close> therefore is one step \<open>Invoke now\<close> (the guard, and the POST when
  the guard fails), and for a call that issued a POST a later step \<open>Settle reply now\<close>
  (the continuation of \<open>authenticate\<close>). \<open>in_flight\<close> counts the calls waiting for
  their reply, \<open>host_zone\<close> is the time zone the calls run in.
\<close>

datatype auth_event = Invoke instant | Settle "AspinTokenResponse option" instant

record auth_run =
  service :: AspinAuthService
  in_flight :: nat
  host_zone :: TimeZone

fun auth_step :: "auth_run \<Rightarrow> auth_event \<Rightarrow> auth_run" where
  "auth_step r (Invoke now) =
     (if token_valid (service r) now then r
      else r\<lparr>service := authenticate_send (service r), in_flight := Suc (in_flight r)\<rparr>)"
| "auth_step r (Settle reply now) =
     (if in_flight r = 0 then r
      else r\<lparr>service := snd (authenticate_resume (host_zone r) (service r) reply now),
             in_flight := in_flight r - 1\<rparr>)"

definition auth_schedule :: "auth_run \<Rightarrow> auth_event list \<Rightarrow> auth_run" where
  "auth_schedule r evs = foldl auth_step r evs"

section \<open>Notifier (AspinPaymentService)\<close>

text \<open>
  Three checks of \<open>AspinPaymentUpdateSchema\<close> belong to the validation library, whose
  version the repository does not fix: they are parameters. They are the string formats
  \<open>z.string().uuid()\<close> and \<open>z.string().date()\<close>, and the integers that \<open>int()\<close>
  accepts (every finite integer in one major version, the integers up to
  \<open>2 ^ 53 - 1\<close> in magnitude in the next).
\<close>

record Zod =
  uuid :: "string \<Rightarrow> bool"
  date :: "string \<Rightarrow> bool"
  int_ok :: "int \<Rightarrow> bool"

text \<open>
  \<open>AspinPaymentUpdateSchema.parse(payload)\<close> succeeds: a UUID, a positive number
  that \<open>int()\<close> accepts (an infinity is no integer), the literal channel and a date (the
  reference is any string, the status is of the enum by its type).
\<close>

definition AspinPaymentUpdateSchema_ok :: "Zod \<Rightarrow> AspinPaymentUpdate \<Rightarrow> bool" where
  "AspinPaymentUpdateSchema_ok Z payload =
     (uuid Z (policy_guid payload)
      \<and> (case amount_in_cents payload of None \<Rightarrow> False | Some n \<Rightarrow> 0 < n \<and> int_ok Z n)
      \<and> channel payload = ''ApiClient'' \<and> date Z (effected_at payload))"

text \<open>
  The outbound side. \<open>notifier_invocations\<close> and \<open>payment_posts\<close> are ghost traces:
  the payload of every call of \<open>notifyPaymentSuccess\<close> or \<open>notifyPaymentFailure\<close>,
  and the bearer token and payload of every POST to \<open>/api/payments\<close>.
\<close>

record Aspin =
  authService :: AspinAuthService
  notifier_invocations :: "AspinPaymentUpdate list"
  payment_posts :: "(string \<times> AspinPaymentUpdate) list"

record notifier_env =
  auth :: auth_env
  payment_reply :: bool

text \<open>
  \<open>sendPaymentUpdate\<close>: a failure to obtain the token, or a rejected POST, is rethrown
  as \<open>NotifyFailed\<close>.
\<close>

definition sendPaymentUpdate :: "Aspin \<Rightarrow> notifier_env \<Rightarrow> AspinPaymentUpdate \<Rightarrow> (error + unit) \<times> Aspin" where
  "sendPaymentUpdate a env payload =
     (case getAccessToken (authService a) (auth env) of
        (Inl e, au) \<Rightarrow> (Inl NotifyFailed, a\<lparr>authService := au\<rparr>)
      | (Inr token, au) \<Rightarrow>
          (if payment_reply env then Inr () else Inl NotifyFailed,
           a\<lparr>authService := au, payment_posts := payment_posts a @ [(token, payload)]\<rparr>))"

text \<open>
  The payload both entry points build: the amount they are given, times 100
  (\<open>amount_in_cents: amount * 100, // Convert to cents\<close>), a product of two
  binary64 numbers.
\<close>

definition payload_of ::
  "AspinStatus \<Rightarrow> string \<Rightarrow> int \<Rightarrow> string \<Rightarrow> string \<Rightarrow> AspinPaymentUpdate" where
  "payload_of st policyGuid' amount mnoReference' effectedAt =
     \<lparr>policy_guid = policyGuid', amount_in_cents = binary64 (amount * 100),
      mno_reference = mnoReference', status = st, channel = ''ApiClient'',
      effected_at = effectedAt\<rparr>"

definition notify ::
  "AspinStatus \<Rightarrow> Zod \<Rightarrow> Aspin \<Rightarrow> notifier_env \<Rightarrow> string \<Rightarrow> int \<Rightarrow> string \<Rightarrow> string \<Rightarrow> (error + unit) \<times> Aspin" where
  "notify st Z a env policyGuid' amount mnoReference' effectedAt =
     (let payload = payload_of st policyGuid' amount mnoReference' effectedAt;
          a1 = a\<lparr>notifier_invocations := notifier_invocations a @ [payload]\<rparr>
      in if AspinPaymentUpdateSchema_ok Z payload then sendPaymentUpdate a1 env payload
         else (Inl ZodError, a1))"

text \<open>The two entry points differ in the status they report only.\<close>

definition notifyPaymentSuccess ::
  "Zod \<Rightarrow> Aspin \<Rightarrow> notifier_env \<Rightarrow> string \<Rightarrow> int \<Rightarrow> string \<Rightarrow> string \<Rightarrow> (error + unit) \<times> Aspin" where
  "notifyPaymentSuccess = notify Succeeded"

definition notifyPaymentFailure ::
  "Zod \<Rightarrow> Aspin \<Rightarrow> notifier_env \<Rightarrow> string \<Rightarrow> int \<Rightarrow> string \<Rightarrow> string \<Rightarrow> (error + unit) \<times> Aspin" where
  "notifyPaymentFailure = notify AspinFailed"

section \<open>Channel adapter (src/services/payment-gateway.service.ts)\<close>

record InitiatePaymentParams =
  par_amount :: int
  par_currency :: Currency
  par_msisdn :: string
  par_reference :: string
  par_description :: string

record InitiatePaymentResult =
  res_transactionId :: string
  res_gatewayReference :: string
  res_status :: Status

text \<open>What one call of the adapter reads: \<open>Math.random()\<close>, \<open>uuidv4()\<close>, \<open>Date.now()\<close>.\<close>

record gateway_env =
  rand :: real
  gw_uuid :: string
  gw_now :: nat

text \<open>
  \<open>simulateNetworkConditions\<close>: below 0.05 the awaited promise rejects with
  "PaymentHub timeout"; the delays are not modelled.
\<close>

definition simulateNetworkConditions :: "real \<Rightarrow> error + unit" where
  "simulateNetworkConditions r = (if r < 0.05 then Inl PaymentHubTimeout else Inr ())"

text \<open>\<open>uuidv4().replace(/-/g, "").substring(0, 12)\<close>.\<close>

definition uuid12 :: "string \<Rightarrow> string" where
  "uuid12 u = take 12 (filter (\<lambda>c. c \<noteq> CHR ''-'') u)"

definition initiateMpesaPayment :: "gateway_env \<Rightarrow> InitiatePaymentParams \<Rightarrow> error + InitiatePaymentResult" where
  "initiateMpesaPayment env params =
     (case simulateNetworkConditions (rand env) of
        Inl e \<Rightarrow> Inl e
      | Inr _ \<Rightarrow>
          Inr \<lparr>res_transactionId = ''MPESA_'' @ uuid12 (gw_uuid env),
               res_gatewayReference = ''WSR_'' @ digits10 (gw_now env),
               res_status = Pending\<rparr>)"

definition initiateAirtelPayment :: "gateway_env \<Rightarrow> InitiatePaymentParams \<Rightarrow> error + InitiatePaymentResult" where
  "initiateAirtelPayment env params =
     (case simulateNetworkConditions (rand env) of
        Inl e \<Rightarrow> Inl e
      | Inr _ \<Rightarrow>
          Inr \<lparr>res_transactionId = ''AIRTEL_'' @ uuid12 (gw_uuid env),
               res_gatewayReference = ''AIR_'' @ digits10 (gw_now env),
               res_status = Pending\<rparr>)"

text \<open>
  \<open>PaymentGatewayService.initiatePayment\<close>; the \<open>default\<close> of its \<open>switch\<close> is out
  of reach of a value of the enum.
\<close>

fun gateway_initiatePayment ::
  "PaymentGateway \<Rightarrow> gateway_env \<Rightarrow> InitiatePaymentParams \<Rightarrow> error + InitiatePaymentResult" where
  "gateway_initiatePayment MPESA env params = initiateMpesaPayment env params"
| "gateway_initiatePayment AIRTEL env params = initiateAirtelPayment env params"

section \<open>Orchestrator (PaymentService)\<close>

text \<open>
  The three singletons the orchestrator works on: its own map of transactions, the
  idempotency ledger and the outbound side.
\<close>

record world =
  transactions :: "string \<rightharpoonup> PaymentTransaction"
  idempotency :: IdempotencyService
  aspin :: Aspin

subsection \<open>Gateway router\<close>

text \<open>\<open>s.startsWith(p)\<close>.\<close>

definition startsWith :: "string \<Rightarrow> string \<Rightarrow> bool" where
  "startsWith s p = (take (length p) s = p)"

text \<open>\<open>msisdn.match(/^00254(7[0-2]|79)/)\<close> and \<open>msisdn.match(/^00254(7[3-5]|77)/)\<close>.\<close>

definition match_mpesa :: "string \<Rightarrow> bool" where
  "match_mpesa msisdn =
     (startsWith msisdn ''00254'' \<and> take 2 (drop 5 msisdn) \<in> set [''70'', ''71'', ''72'', ''79''])"

definition match_airtel :: "string \<Rightarrow> bool" where
  "match_airtel msisdn =
     (startsWith msisdn ''00254'' \<and> take 2 (drop 5 msisdn) \<in> set [''73'', ''74'', ''75'', ''77''])"

definition determineGateway :: "string \<Rightarrow> PaymentGateway" where
  "determineGateway msisdn =
     (if match_mpesa msisdn then MPESA
      else if match_airtel msisdn then AIRTEL
      else if startsWith msisdn ''00254'' then MPESA else AIRTEL)"

subsection \<open>Initiation\<close>

text \<open>
  What one call of \<open>initiatePayment\<close> reads: \<open>uuidv4()\<close>, the two \<open>new Date()\<close> of
  the new record, the adapter's readings, and the \<open>new Date()\<close> after the adapter
  answered.
\<close>

record initiate_env =
  txn_uuid :: string
  t_createdAt :: instant
  t_updatedAt :: instant
  gw :: gateway_env
  t_assigned :: instant

record initiate_response =
  out_transactionId :: string
  out_status :: Status

text \<open>\<open>request.description || `Policy payment: ${request.policy_guid}`\<close>: an empty string is falsy.\<close>

definition description_or_default :: "InitiatePaymentRequest \<Rightarrow> string" where
  "description_or_default request =
     (case req_description request of
        None \<Rightarrow> ''Policy payment: '' @ req_policy_guid request
      | Some d \<Rightarrow> if d = [] then ''Policy payment: '' @ req_policy_guid request else d)"

text \<open>
  \<open>PaymentService.initiatePayment\<close>. The record is put into the map before the adapter
  is called, and an error of the adapter is rethrown with the record left as stored.
\<close>

definition initiatePayment ::
  "world \<Rightarrow> initiate_env \<Rightarrow> InitiatePaymentRequest \<Rightarrow> (error + initiate_response) \<times> world" where
  "initiatePayment w env request =
     (if req_currency request = KES \<and> req_amount request \<noteq> 5000 then (Inl InvalidAmount, w)
      else
        let tid = ''TXN_'' @ uuid12 (txn_uuid env);
            gateway' = determineGateway (req_msisdn request);
            transaction =
              \<lparr>transactionId = tid, policyGuid = req_policy_guid request,
               txn_amount = req_amount request, txn_currency = req_currency request,
               txn_msisdn = req_msisdn request, txn_status = Pending, gateway = gateway',
               gatewayReference = None, mnoReference = None,
               createdAt = t_createdAt env, updatedAt = t_updatedAt env,
               txn_metadata = req_metadata request\<rparr>;
            w1 = w\<lparr>transactions := (transactions w)(tid \<mapsto> transaction)\<rparr>
        in case gateway_initiatePayment gateway' (gw env)
                  \<lparr>par_amount = req_amount request, par_currency = req_currency request,
                   par_msisdn = req_msisdn request, par_reference = tid,
                   par_description = description_or_default request\<rparr> of
             Inl e \<Rightarrow> (Inl e, w1)
           | Inr gatewayResult \<Rightarrow>
               (Inr \<lparr>out_transactionId = tid, out_status = res_status gatewayResult\<rparr>,
                w1\<lparr>transactions := (transactions w1)(tid \<mapsto>
                      transaction\<lparr>gatewayReference := Some (res_gatewayReference gatewayResult),
                                  txn_status := res_status gatewayResult,
                                  updatedAt := t_assigned env\<rparr>)\<rparr>))"

subsection \<open>Webhook processing\<close>

text \<open>
  What one call of \<open>handleWebhook\<close> reads, in the order of the code: the clock of the
  ledger's \<open>get\<close>, the \<open>new Date()\<close> of \<open>updatedAt\<close>, the local calendar fields of
  \<open>now\<close> (\<open>getFullYear()\<close>, \<open>getMonth()\<close>, \<open>getDate()\<close>), the notifier's
  environment, the \<open>new Date()\<close> of the receipt and the clock of the ledger's \<open>set\<close>;
  and the host's time zone, in which the ledger's \<open>set\<close> computes the expiry.
\<close>

record webhook_env =
  zone :: TimeZone
  t_get :: instant
  t_updated :: instant
  now_FullYear :: nat
  now_Month :: nat
  now_Date :: nat
  notifier :: notifier_env
  t_stamp :: instant
  t_set :: instant

text \<open>\<open>webhook.mno_reference || webhook.transaction_id\<close>: an empty string is falsy.\<close>

definition mnoReference_of :: "PaymentHubWebhook \<Rightarrow> string" where
  "mnoReference_of webhook =
     (case wh_mno_reference webhook of
        None \<Rightarrow> transaction_id webhook
      | Some r \<Rightarrow> if r = [] then transaction_id webhook else r)"

text \<open>\<open>`${year}-${month}-${day}`\<close>, month and day padded to two digits.\<close>

definition effectedAt_of :: "webhook_env \<Rightarrow> string" where
  "effectedAt_of env =
     digits10 (now_FullYear env) @ ''-'' @ padStart2 (digits10 (now_Month env + 1))
       @ ''-'' @ padStart2 (digits10 (now_Date env))"

text \<open>
  Lines 137 to 151 of the service: the notifier is called for a completed and for a
  failed delivery, and not at all for a pending one.
\<close>

fun notifyAspin ::
  "WebhookStatus \<Rightarrow> Zod \<Rightarrow> Aspin \<Rightarrow> notifier_env \<Rightarrow> string \<Rightarrow> int \<Rightarrow> string \<Rightarrow> string \<Rightarrow> (error + unit) \<times> Aspin" where
  "notifyAspin WCompleted Z a env g n r d = notifyPaymentSuccess Z a env g n r d"
| "notifyAspin WFailed Z a env g n r d = notifyPaymentFailure Z a env g n r d"
| "notifyAspin WPending Z a env g n r d = (Inr (), a)"

text \<open>
  \<open>PaymentService.handleWebhook\<close>. The ledger is keyed by \<open>webhook.transaction_id\<close>.
  The \<open>catch\<close> rethrows, so an error leaves every update made before it in place.
\<close>

definition handleWebhook ::
  "Zod \<Rightarrow> world \<Rightarrow> webhook_env \<Rightarrow> PaymentHubWebhook \<Rightarrow> (error + unit) \<times> world" where
  "handleWebhook Z w env webhook =
     (case idempotency_get (idempotency w) (t_get env) (transaction_id webhook) of
        (Some existing, idem1) \<Rightarrow> (Inr (), w\<lparr>idempotency := idem1\<rparr>)
      | (None, idem1) \<Rightarrow>
          (case transactions w (transaction_id webhook) of
             None \<Rightarrow> (Inl (TransactionNotFound (transaction_id webhook)), w\<lparr>idempotency := idem1\<rparr>)
           | Some transaction \<Rightarrow>
               let w1 = w\<lparr>idempotency := idem1,
                          transactions := (transactions w)(transaction_id webhook \<mapsto>
                            transaction\<lparr>txn_status := status_of (wh_status webhook),
                                        updatedAt := t_updated env\<rparr>)\<rparr>
               in (case notifyAspin (wh_status webhook) Z (aspin w1) (notifier env)
                         (policyGuid transaction) (txn_amount transaction)
                         (mnoReference_of webhook) (effectedAt_of env) of
                     (Inl e, aspin1) \<Rightarrow> (Inl e, w1\<lparr>aspin := aspin1\<rparr>)
                   | (Inr _, aspin1) \<Rightarrow>
                       (Inr (),
                        w1\<lparr>aspin := aspin1,
                           idempotency :=
                             idempotency_set (zone env) (idempotency w1) (t_set env)
                               (transaction_id webhook)
                               \<lparr>processed = True, receipt_timestamp = t_stamp env,
                                receipt_status = wh_status webhook\<rparr>\<rparr>))))"

text \<open>\<open>getTransaction\<close>.\<close>

definition getTransaction :: "world \<Rightarrow> string \<Rightarrow> PaymentTransaction option" where
  "getTransaction w tid = transactions w tid"

subsection \<open>Sequences of calls\<close>

text \<open>
  The same webhook delivered once per environment of the list, one delivery after the
  other; an error of one delivery does not stop the next.
\<close>

fun deliveries ::
  "Zod \<Rightarrow> world \<Rightarrow> webhook_env list \<Rightarrow> PaymentHubWebhook \<Rightarrow> (error + unit) list \<times> world" where
  "deliveries Z w [] webhook = ([], w)"
| "deliveries Z w (env # envs) webhook =
     (case handleWebhook Z w env webhook of
        (r, w1) \<Rightarrow> (case deliveries Z w1 envs webhook of (rs, w2) \<Rightarrow> (r # rs, w2)))"

text \<open>Any sequence of initiations and webhook deliveries.\<close>

datatype event =
    Initiate initiate_env InitiatePaymentRequest
  | Webhook webhook_env PaymentHubWebhook

fun step :: "Zod \<Rightarrow> world \<Rightarrow> event \<Rightarrow> world" where
  "step Z w (Initiate env request) = snd (initiatePayment w env request)"
| "step Z w (Webhook env webhook) = snd (handleWebhook Z w env webhook)"

definition run :: "Zod \<Rightarrow> world \<Rightarrow> event list \<Rightarrow> world" where
  "run Z w evs = foldl (step Z) w evs"

text \<open>The transaction identifier an event creates, if it creates one.\<close>

fun created_id :: "event \<Rightarrow> string option" where
  "created_id (Initiate env request) = Some (''TXN_'' @ uuid12 (txn_uuid env))"
| "created_id (Webhook env webhook) = None"

text \<open>The fields of a record that no call rewrites.\<close>

definition fixed_fields :: "PaymentTransaction \<Rightarrow> string \<times> string \<times> int \<times> Currency" where
  "fixed_fields t = (transactionId t, policyGuid t, txn_amount t, txn_currency t)"

section \<open>Concrete inputs\<close>

text \<open>The values of the repository's unit tests, used to run the model.\<close>

definition Z0 :: Zod where
  "Z0 = \<lparr>uuid = (\<lambda>s. length s = 36), date = (\<lambda>s. length s = 10),
         int_ok = (\<lambda>n. \<bar>n\<bar> \<le> 9007199254740991)\<rparr>"

text \<open>UTC, and the United Kingdom in 2026: one hour ahead from 29 March, 01:00 UTC, to 25 October, 01:00 UTC.\<close>

definition utc :: TimeZone where
  "utc = \<lparr>LocalTZA_utc = (\<lambda>t. 0), LocalTZA_local = (\<lambda>t. 0)\<rparr>"

definition london :: TimeZone where
  "london =
     \<lparr>LocalTZA_utc = (\<lambda>t. if 1774746000000 \<le> t \<and> t < 1792890000000 then 3600000 else 0),
      LocalTZA_local = (\<lambda>t. if 1774749600000 \<le> t \<and> t < 1792893600000 then 3600000 else 0)\<rparr>"

definition txn0 :: PaymentTransaction where
  "txn0 =
     \<lparr>transactionId = ''TXN_123456'', policyGuid = ''123e4567-e89b-12d3-a456-426614174000'',
      txn_amount = 5000, txn_currency = KES, txn_msisdn = ''00254712345678'',
      txn_status = Pending, gateway = MPESA, gatewayReference = Some ''WSR_123456'',
      mnoReference = None, createdAt = 0, updatedAt = 0, txn_metadata = None\<rparr>"

definition auth0 :: AspinAuthService where
  "auth0 = \<lparr>accessToken = None, tokenExpiry = None, oauth_requests = 0\<rparr>"

definition idem0 :: IdempotencyService where
  "idem0 = \<lparr>store = Map.empty, ttl = Some default_ttl\<rparr>"

text \<open>A world holding one transaction in the given status, with an empty ledger.\<close>

definition world0 :: "Status \<Rightarrow> world" where
  "world0 st =
     \<lparr>transactions = [''TXN_123456'' \<mapsto> txn0\<lparr>txn_status := st\<rparr>],
      idempotency = idem0,
      aspin = \<lparr>authService = auth0, notifier_invocations = [], payment_posts = []\<rparr>\<rparr>"

definition token0 :: AspinTokenResponse where
  "token0 = \<lparr>access_token = ''test-access-token-123'', expires_in = 1517\<rparr>"

text \<open>
  A delivery in the zone \<open>tz\<close> all of whose clock readings are \<open>t\<close>, with the calendar
  fields of 15 February 2026 and the upstream API answering; \<open>ok\<close> is whether the POST
  to \<open>/api/payments\<close> succeeds.
\<close>

definition wenv_in :: "TimeZone \<Rightarrow> instant \<Rightarrow> bool \<Rightarrow> webhook_env" where
  "wenv_in tz t ok =
     \<lparr>zone = tz, t_get = t, t_updated = t, now_FullYear = 2026, now_Month = 1, now_Date = 15,
      notifier = \<lparr>auth = \<lparr>auth_zone = tz, t_check = t, oauth_reply = Some token0,
                          t_granted = t\<rparr>,
                  payment_reply = ok\<rparr>,
      t_stamp = t, t_set = t\<rparr>"

definition wenv0 :: "instant \<Rightarrow> bool \<Rightarrow> webhook_env" where
  "wenv0 t ok = wenv_in utc t ok"

definition webhook0 :: "WebhookStatus \<Rightarrow> PaymentHubWebhook" where
  "webhook0 st =
     \<lparr>transaction_id = ''TXN_123456'', wh_status = st, wh_amount = 5000, wh_currency = KES,
      wh_timestamp = ''2026-02-11T10:35:00Z'', wh_signature = None, wh_policy_guid = None,
      wh_mno_reference = Some ''MNO_REF_123''\<rparr>"

definition request0 :: "int \<Rightarrow> InitiatePaymentRequest" where
  "request0 n =
     \<lparr>req_policy_guid = ''123e4567-e89b-12d3-a456-426614174000'', req_amount = n,
      req_currency = KES, req_msisdn = ''00254712345678'', req_customer_id = None,
      req_external_reference = None, req_description = Some ''Test payment'',
      req_metadata = None\<rparr>"

definition ienv0 :: initiate_env where
  "ienv0 =
     \<lparr>txn_uuid = ''9b2f7c1e-5a4d-4e8b-9c3a-7d6e5f4a3b2c'', t_createdAt = 10, t_updatedAt = 10,
      gw = \<lparr>rand = 0.5, gw_uuid = ''0f1e2d3c-4b5a-4978-8695-a4b3c2d1e0f9'', gw_now = 20\<rparr>,
      t_assigned = 30\<rparr>"

text \<open>A second initiation, with another identifier.\<close>

definition ienv1 :: initiate_env where
  "ienv1 = ienv0\<lparr>txn_uuid := ''11111111-2222-4333-8444-555555555555''\<rparr>"

section \<open>The ledger and the webhook processor, case by case\<close>

lemmas run_defs =
  handleWebhook_def idempotency_get_def idempotency_set_def ledger_holds_def
  setSeconds_plus_def TimeClip_def expired_at_def
  notifyPaymentSuccess_def notifyPaymentFailure_def notify_def payload_of_def sendPaymentUpdate_def
  AspinPaymentUpdateSchema_ok_def getAccessToken_def authenticate_def authenticate_send_def
  authenticate_resume_def token_valid_def mnoReference_of_def effectedAt_of_def
  digits10.simps digit_chr_def padStart2_def Let_def

lemmas data_defs =
  Z0_def txn0_def auth0_def idem0_def world0_def token0_def wenv0_def wenv_in_def webhook0_def
  default_ttl_def utc_def

lemmas init_defs =
  initiatePayment_def determineGateway_def match_mpesa_def match_airtel_def startsWith_def
  uuid12_def initiateMpesaPayment_def initiateAirtelPayment_def simulateNetworkConditions_def
  description_or_default_def request0_def ienv0_def

lemma idempotency_get_hit:
  "ledger_holds s now k \<Longrightarrow> \<exists>r. idempotency_get s now k = (Some r, s)"
  by (auto simp: ledger_holds_def idempotency_get_def split: option.splits)

lemma idempotency_get_miss:
  "\<not> ledger_holds s now k \<Longrightarrow>
     idempotency_get s now k = (None, s\<lparr>store := (store s)(k := None)\<rparr>)"
  by (auto simp: ledger_holds_def idempotency_get_def fun_upd_idem split: option.splits)

lemma idempotency_set_after_miss:
  "idempotency_set tz (s\<lparr>store := (store s)(k := None)\<rparr>) t k r = idempotency_set tz s t k r"
  by (simp add: idempotency_set_def)

lemma ledger_holds_set:
  "ledger_holds (idempotency_set tz s t k r) now k
     = (\<not> expired_at (setSeconds_plus tz t (ttl s)) now)"
  by (simp add: ledger_holds_def idempotency_set_def)



text \<open>
  Across the start of summer time an entry written with the default \<open>ttl\<close> lives 23
  hours: written on 28 March 2026 at 12:00 UTC in the United Kingdom, it expires
  82800000 ms later.
\<close>

lemma setSeconds_plus_london:
  "setSeconds_plus london 1774699200000 (Some default_ttl) = Some (1774699200000 + 82800000)"
  by (simp add: setSeconds_plus_def london_def TimeClip_def default_ttl_def)

text \<open>Integers below \<open>2 ^ 53\<close> in magnitude are not rounded.\<close>

lemma bit_length_le: "m < 2 ^ k \<Longrightarrow> bit_length m \<le> k"
proof (induction k arbitrary: m)
  case 0
  then have "m = 0" by simp
  then show ?case by (subst bit_length.simps) simp
next
  case (Suc k)
  show ?case
  proof (cases "m = 0")
    case True
    then show ?thesis by (subst bit_length.simps) simp
  next
    case False
    from Suc.prems have "m div 2 < 2 ^ k" by simp
    from Suc.IH [OF this] False show ?thesis
      by (subst bit_length.simps) simp
  qed
qed

lemma bit_length_eq: "2 ^ k \<le> m \<Longrightarrow> m < 2 ^ Suc k \<Longrightarrow> bit_length m = Suc k"
proof (induction k arbitrary: m)
  case 0
  then have "m = 1" by simp
  then show ?case by (simp add: bit_length.simps [of "Suc 0"] bit_length.simps [of 0])
next
  case (Suc k)
  from Suc.prems have "m \<noteq> 0" "2 ^ k \<le> m div 2" "m div 2 < 2 ^ Suc k" by auto
  with Suc.IH [of "m div 2"] show ?case
    by (subst bit_length.simps) simp
qed

lemma binary64_exact: "\<bar>v\<bar> < 9007199254740992 \<Longrightarrow> binary64 v = Some v"
proof -
  assume b: "\<bar>v\<bar> < 9007199254740992"
  then have m: "nat \<bar>v\<bar> < 2 ^ 53" by simp
  from bit_length_le [OF m] have k: "bit_length (nat \<bar>v\<bar>) - 53 = 0" by simp
  have big: "\<not> (2::nat) ^ 1024 \<le> nat \<bar>v\<bar>"
  proof -
    have "(2::nat) ^ 53 \<le> 2 ^ 1024" by (rule power_increasing) simp_all
    with m show ?thesis by linarith
  qed
  show ?thesis
    unfolding binary64_def Let_def k using big by (simp add: mult_sgn_abs)
qed

text \<open>Beyond, the product is rounded: 360287970189641 times 100 is not representable.\<close>

lemma binary64_rounds: "binary64 (360287970189641 * 100) = Some 36028797018964096"
proof -
  have "bit_length 36028797018964100 = Suc 55"
    by (rule bit_length_eq) simp_all
  then show ?thesis
    by (simp add: binary64_def Let_def)
qed

text \<open>A delivery the ledger answers for is skipped, and nothing changes.\<close>

lemma handleWebhook_duplicate:
  "ledger_holds (idempotency w) (t_get env) (transaction_id wh) \<Longrightarrow>
     handleWebhook Z w env wh = (Inr (), w)"
  using idempotency_get_hit [of "idempotency w" "t_get env" "transaction_id wh"]
  by (auto simp: handleWebhook_def)

lemma handleWebhook_unknown:
  "\<not> ledger_holds (idempotency w) (t_get env) (transaction_id wh) \<Longrightarrow>
   transactions w (transaction_id wh) = None \<Longrightarrow>
     handleWebhook Z w env wh =
       (Inl (TransactionNotFound (transaction_id wh)),
        w\<lparr>idempotency := (idempotency w)\<lparr>store := (store (idempotency w))(transaction_id wh := None)\<rparr>\<rparr>)"
  by (simp add: handleWebhook_def idempotency_get_miss)

text \<open>
  A delivery the ledger does not answer for, of a known transaction: the status is
  overwritten, the notifier's result decides between the error and the ledger entry.
\<close>

lemma handleWebhook_known:
  assumes "\<not> ledger_holds (idempotency w) (t_get env) (transaction_id wh)"
    and "transactions w (transaction_id wh) = Some t"
    and "notifyAspin (wh_status wh) Z (aspin w) (notifier env) (policyGuid t) (txn_amount t)
           (mnoReference_of wh) (effectedAt_of env) = (r, a)"
  shows "handleWebhook Z w env wh =
     (case r of
        Inl e \<Rightarrow>
          (Inl e,
           w\<lparr>idempotency := (idempotency w)\<lparr>store := (store (idempotency w))(transaction_id wh := None)\<rparr>,
             transactions := (transactions w)(transaction_id wh \<mapsto>
               t\<lparr>txn_status := status_of (wh_status wh), updatedAt := t_updated env\<rparr>),
             aspin := a\<rparr>)
      | Inr _ \<Rightarrow>
          (Inr (),
           w\<lparr>idempotency := idempotency_set (zone env) (idempotency w) (t_set env)
                 (transaction_id wh)
                 \<lparr>processed = True, receipt_timestamp = t_stamp env, receipt_status = wh_status wh\<rparr>,
             transactions := (transactions w)(transaction_id wh \<mapsto>
               t\<lparr>txn_status := status_of (wh_status wh), updatedAt := t_updated env\<rparr>),
             aspin := a\<rparr>))"
  using assms
  by (simp add: handleWebhook_def idempotency_get_miss Let_def idempotency_set_after_miss
      split: sum.splits)

text \<open>What a delivery that was processed to its end has done.\<close>

lemma handleWebhook_processed:
  assumes "\<not> ledger_holds (idempotency w) (t_get env) (transaction_id wh)"
    and "handleWebhook Z w env wh = (Inr (), w1)"
  obtains t a where "transactions w (transaction_id wh) = Some t"
    and "notifyAspin (wh_status wh) Z (aspin w) (notifier env) (policyGuid t) (txn_amount t)
           (mnoReference_of wh) (effectedAt_of env) = (Inr (), a)"
    and "w1 = w\<lparr>idempotency := idempotency_set (zone env) (idempotency w) (t_set env)
                 (transaction_id wh)
                 \<lparr>processed = True, receipt_timestamp = t_stamp env, receipt_status = wh_status wh\<rparr>,
             transactions := (transactions w)(transaction_id wh \<mapsto>
               t\<lparr>txn_status := status_of (wh_status wh), updatedAt := t_updated env\<rparr>),
             aspin := a\<rparr>"
proof (cases "transactions w (transaction_id wh)")
  case None
  from handleWebhook_unknown [OF assms(1) None, of Z] assms(2) show ?thesis by simp
next
  case (Some t)
  obtain r a where n: "notifyAspin (wh_status wh) Z (aspin w) (notifier env) (policyGuid t)
      (txn_amount t) (mnoReference_of wh) (effectedAt_of env) = (r, a)"
    by (cases "notifyAspin (wh_status wh) Z (aspin w) (notifier env) (policyGuid t)
      (txn_amount t) (mnoReference_of wh) (effectedAt_of env)")
  from handleWebhook_known [OF assms(1) Some n] assms(2) have "r = Inr ()"
    by (cases r) auto
  with handleWebhook_known [OF assms(1) Some n] assms(2) n Some that show ?thesis
    by auto
qed

text \<open>After it, the ledger answers for the transaction until the entry expires.\<close>

lemma ledger_after_processed:
  assumes "\<not> ledger_holds (idempotency w) (t_get env) (transaction_id wh)"
    and "handleWebhook Z w env wh = (Inr (), w1)"
  shows "ledger_holds (idempotency w1) now (transaction_id wh)
           = (\<not> expired_at (setSeconds_plus (zone env) (t_set env) (ttl (idempotency w))) now)"
proof -
  from assms obtain t a where
    "w1 = w\<lparr>idempotency := idempotency_set (zone env) (idempotency w) (t_set env)
                 (transaction_id wh)
                 \<lparr>processed = True, receipt_timestamp = t_stamp env, receipt_status = wh_status wh\<rparr>,
             transactions := (transactions w)(transaction_id wh \<mapsto>
               t\<lparr>txn_status := status_of (wh_status wh), updatedAt := t_updated env\<rparr>),
             aspin := a\<rparr>"
    by (rule handleWebhook_processed)
  then show ?thesis by (simp add: ledger_holds_set)
qed

section \<open>Initiation: the amount check\<close>

text \<open>
  C6. An initiation request in KES whose amount is not 5000 is rejected with the
  invalid-amount error, and the call leaves the world, and so the map of transactions,
  as it was: no record is created.
\<close>

theorem C6_invalid_amount_rejected:
  assumes "req_currency request = KES" and "req_amount request \<noteq> 5000"
  shows "initiatePayment w env request = (Inl InvalidAmount, w)"
  using assms by (simp add: initiatePayment_def)

theorem C6_invalid_amount_rejected_witness:
  "req_currency (request0 3000) = KES \<and> req_amount (request0 3000) \<noteq> 5000
   \<and> initiatePayment (world0 Pending) ienv0 (request0 3000) = (Inl InvalidAmount, world0 Pending)"
proof -
  have h1: "req_currency (request0 3000) = KES" by (simp add: request0_def)
  have h2: "req_amount (request0 3000) \<noteq> 5000" by (simp add: request0_def)
  show ?thesis
    using h1 h2 C6_invalid_amount_rejected [OF h1 h2, of "world0 Pending" ienv0] by simp
qed

section \<open>The gateway router\<close>

lemma startsWith_take7: "startsWith (take 7 m) ''00254'' = startsWith m ''00254''"
  by (simp add: startsWith_def)

lemma window_take7: "take 2 (drop 5 (take 7 m)) = take 2 (drop 5 m)"
  by (simp add: drop_take)

text \<open>
  C7. The router is a total, pure function of the subscriber identifier. It has no
  failing branch: every string gets a channel, M-Pesa exactly for the identifiers that
  start with 00254 and do not continue with an Airtel prefix (73, 74, 75, 77), Airtel for
  all others. The channel depends on the first seven characters only, so the same
  identifier always gets the same channel; and 00254712345678 gets M-Pesa.
\<close>

theorem C7_router_total_deterministic:
  "determineGateway msisdn =
     (if startsWith msisdn ''00254''
         \<and> take 2 (drop 5 msisdn) \<notin> set [''73'', ''74'', ''75'', ''77'']
      then MPESA else AIRTEL)
   \<and> determineGateway msisdn = determineGateway (take 7 msisdn)
   \<and> determineGateway ''00254712345678'' = MPESA"
proof (intro conjI)
  show "determineGateway msisdn =
     (if startsWith msisdn ''00254''
         \<and> take 2 (drop 5 msisdn) \<notin> set [''73'', ''74'', ''75'', ''77'']
      then MPESA else AIRTEL)"
    by (auto simp: determineGateway_def match_mpesa_def match_airtel_def)
  show "determineGateway msisdn = determineGateway (take 7 msisdn)"
    by (simp only: determineGateway_def match_mpesa_def match_airtel_def
        startsWith_take7 window_take7)
  show "determineGateway ''00254712345678'' = MPESA"
    by (simp add: determineGateway_def match_mpesa_def startsWith_def)
qed

section \<open>The ledger entry follows the notification\<close>



section \<open>The ledger is keyed by the transaction identifier\<close>




section \<open>Terminal records\<close>

text \<open>
  C1, as the code has it. The registry has no check of the record's status: a delivery
  for a completed or failed record is a no-op that returns normally when the ledger
  still holds an unexpired entry for the transaction identifier; when it does not, the
  record's status is overwritten with the status of the delivery.
\<close>

theorem C1_terminal_record_guarded_by_ledger_only:
  assumes "transactions w (transaction_id wh) = Some t"
    and "txn_status t = Completed \<or> txn_status t = Failed"
  shows "(ledger_holds (idempotency w) (t_get env) (transaction_id wh) \<longrightarrow>
            handleWebhook Z w env wh = (Inr (), w))
     \<and> (\<not> ledger_holds (idempotency w) (t_get env) (transaction_id wh) \<longrightarrow>
            map_option txn_status
              (transactions (snd (handleWebhook Z w env wh)) (transaction_id wh))
            = Some (status_of (wh_status wh)))"
proof (intro conjI impI)
  assume "ledger_holds (idempotency w) (t_get env) (transaction_id wh)"
  then show "handleWebhook Z w env wh = (Inr (), w)" by (rule handleWebhook_duplicate)
next
  assume miss: "\<not> ledger_holds (idempotency w) (t_get env) (transaction_id wh)"
  obtain r a where n: "notifyAspin (wh_status wh) Z (aspin w) (notifier env) (policyGuid t)
      (txn_amount t) (mnoReference_of wh) (effectedAt_of env) = (r, a)"
    by (cases "notifyAspin (wh_status wh) Z (aspin w) (notifier env) (policyGuid t)
      (txn_amount t) (mnoReference_of wh) (effectedAt_of env)")
  show "map_option txn_status
              (transactions (snd (handleWebhook Z w env wh)) (transaction_id wh))
            = Some (status_of (wh_status wh))"
    by (cases r) (simp_all add: handleWebhook_known [OF miss assms(1) n])
qed

theorem C1_terminal_record_guarded_by_ledger_only_witness:
  "transactions (world0 Completed) (transaction_id (webhook0 WFailed))
     = Some (txn0\<lparr>txn_status := Completed\<rparr>)
   \<and> txn_status (txn0\<lparr>txn_status := Completed\<rparr>) = Completed
   \<and> \<not> ledger_holds (idempotency (world0 Completed)) (t_get (wenv0 1000 True))
         (transaction_id (webhook0 WFailed))
   \<and> map_option txn_status
        (transactions (snd (handleWebhook Z0 (world0 Completed) (wenv0 1000 True) (webhook0 WFailed)))
           (transaction_id (webhook0 WFailed))) = Some Failed"
proof -
  let ?w = "world0 Completed" and ?env = "wenv0 1000 True" and ?wh = "webhook0 WFailed"
  have h1: "transactions ?w (transaction_id ?wh) = Some (txn0\<lparr>txn_status := Completed\<rparr>)"
    by (simp add: data_defs)
  have h2: "txn_status (txn0\<lparr>txn_status := Completed\<rparr>) = Completed
      \<or> txn_status (txn0\<lparr>txn_status := Completed\<rparr>) = Failed"
    by simp
  have h3: "\<not> ledger_holds (idempotency ?w) (t_get ?env) (transaction_id ?wh)"
    by (simp add: data_defs ledger_holds_def)
  from C1_terminal_record_guarded_by_ledger_only [OF h1 h2, of ?env Z0] h3
  have "map_option txn_status
        (transactions (snd (handleWebhook Z0 ?w ?env ?wh)) (transaction_id ?wh))
      = Some (status_of (wh_status ?wh))"
    by blast
  then have "map_option txn_status
        (transactions (snd (handleWebhook Z0 ?w ?env ?wh)) (transaction_id ?wh)) = Some Failed"
    by (simp add: webhook0_def)
  with h1 h3 show ?thesis by simp
qed

text \<open>
  C1 as stated fails: a record completed by a first delivery is moved to failed by a
  delivery that arrives after the ledger entry has expired.
\<close>

theorem C1_terminal_record_overwritten_counterexample:
  "map_option txn_status
     (transactions (run Z0 (world0 Pending) [Webhook (wenv0 1000 True) (webhook0 WCompleted)])
        ''TXN_123456'') = Some Completed
   \<and> map_option txn_status
     (transactions (run Z0 (world0 Pending)
        [Webhook (wenv0 1000 True) (webhook0 WCompleted),
         Webhook (wenv0 86401001 True) (webhook0 WFailed)]) ''TXN_123456'') = Some Failed"
  by (simp add: run_def data_defs run_defs binary64_exact)

section \<open>What the notifier is sent\<close>

lemma sendPaymentUpdate_invocations:
  "notifier_invocations (snd (sendPaymentUpdate a env p)) = notifier_invocations a"
  by (simp add: sendPaymentUpdate_def split: prod.splits sum.splits)

lemma sendPaymentUpdate_posts:
  "payment_posts (snd (sendPaymentUpdate a env p)) = payment_posts a
   \<or> (\<exists>tok. payment_posts (snd (sendPaymentUpdate a env p)) = payment_posts a @ [(tok, p)])"
  by (simp add: sendPaymentUpdate_def split: prod.splits sum.splits)

lemma sendPaymentUpdate_posts_ok:
  "fst (sendPaymentUpdate a env p) = Inr () \<Longrightarrow>
     \<exists>tok. payment_posts (snd (sendPaymentUpdate a env p)) = payment_posts a @ [(tok, p)]"
  by (simp add: sendPaymentUpdate_def split: prod.splits sum.splits if_splits)

lemma notify_invocations:
  "notifier_invocations (snd (notify st Z a env g n r d))
     = notifier_invocations a @ [payload_of st g n r d]"
  by (simp add: notify_def Let_def sendPaymentUpdate_invocations)

lemma notify_posts:
  "payment_posts (snd (notify st Z a env g n r d)) = payment_posts a
   \<or> (\<exists>tok. payment_posts (snd (notify st Z a env g n r d))
         = payment_posts a @ [(tok, payload_of st g n r d)])"
  using sendPaymentUpdate_posts
    [of "a\<lparr>notifier_invocations := notifier_invocations a @ [payload_of st g n r d]\<rparr>" env
        "payload_of st g n r d"]
  by (simp add: notify_def Let_def)

lemma notify_posts_ok:
  "fst (notify st Z a env g n r d) = Inr () \<Longrightarrow>
     \<exists>tok. payment_posts (snd (notify st Z a env g n r d))
         = payment_posts a @ [(tok, payload_of st g n r d)]"
  using sendPaymentUpdate_posts_ok
    [of "a\<lparr>notifier_invocations := notifier_invocations a @ [payload_of st g n r d]\<rparr>" env
        "payload_of st g n r d"]
  by (simp add: notify_def Let_def split: if_splits)

lemma notifyAspin_notify:
  "st \<noteq> WPending \<Longrightarrow>
     notifyAspin st Z a env g n r d
       = notify (if st = WCompleted then Succeeded else AspinFailed) Z a env g n r d"
  by (cases st) (simp_all add: notifyPaymentSuccess_def notifyPaymentFailure_def)

text \<open>The notifier's side of a delivery that reached the notifier.\<close>

lemma handleWebhook_aspin:
  assumes "\<not> ledger_holds (idempotency w) (t_get env) (transaction_id wh)"
    and "transactions w (transaction_id wh) = Some t"
  shows "aspin (snd (handleWebhook Z w env wh))
     = snd (notifyAspin (wh_status wh) Z (aspin w) (notifier env) (policyGuid t) (txn_amount t)
           (mnoReference_of wh) (effectedAt_of env))
   \<and> fst (handleWebhook Z w env wh)
     = fst (notifyAspin (wh_status wh) Z (aspin w) (notifier env) (policyGuid t) (txn_amount t)
           (mnoReference_of wh) (effectedAt_of env))"
proof -
  obtain r a where n: "notifyAspin (wh_status wh) Z (aspin w) (notifier env) (policyGuid t)
      (txn_amount t) (mnoReference_of wh) (effectedAt_of env) = (r, a)"
    by (cases "notifyAspin (wh_status wh) Z (aspin w) (notifier env) (policyGuid t)
      (txn_amount t) (mnoReference_of wh) (effectedAt_of env)")
  show ?thesis
    by (cases r) (simp_all add: handleWebhook_known [OF assms n] n)
qed

text \<open>A delivery that reaches the notifier with a completed or failed outcome.\<close>

lemma handleWebhook_notified:
  assumes "\<not> ledger_holds (idempotency w) (t_get env) (transaction_id wh)"
    and "transactions w (transaction_id wh) = Some t"
    and "wh_status wh \<noteq> WPending"
    and "p = payload_of (if wh_status wh = WCompleted then Succeeded else AspinFailed)
               (policyGuid t) (txn_amount t) (mnoReference_of wh) (effectedAt_of env)"
  shows "notifier_invocations (aspin (snd (handleWebhook Z w env wh)))
         = notifier_invocations (aspin w) @ [p]"
    and "payment_posts (aspin (snd (handleWebhook Z w env wh))) = payment_posts (aspin w)
         \<or> (\<exists>tok. payment_posts (aspin (snd (handleWebhook Z w env wh)))
               = payment_posts (aspin w) @ [(tok, p)])"
    and "fst (handleWebhook Z w env wh) = Inr () \<longrightarrow>
           (\<exists>tok. payment_posts (aspin (snd (handleWebhook Z w env wh)))
               = payment_posts (aspin w) @ [(tok, p)])"
proof -
  let ?st = "if wh_status wh = WCompleted then Succeeded else AspinFailed"
  let ?n = "notify ?st Z (aspin w) (notifier env) (policyGuid t) (txn_amount t)
      (mnoReference_of wh) (effectedAt_of env)"
  have a: "aspin (snd (handleWebhook Z w env wh)) = snd ?n"
    and r: "fst (handleWebhook Z w env wh) = fst ?n"
    using handleWebhook_aspin [OF assms(1,2), of Z] notifyAspin_notify [OF assms(3)]
    by simp_all
  show "notifier_invocations (aspin (snd (handleWebhook Z w env wh)))
      = notifier_invocations (aspin w) @ [p]"
    by (simp only: a assms(4) notify_invocations)
  show "payment_posts (aspin (snd (handleWebhook Z w env wh))) = payment_posts (aspin w)
         \<or> (\<exists>tok. payment_posts (aspin (snd (handleWebhook Z w env wh)))
               = payment_posts (aspin w) @ [(tok, p)])"
    unfolding a assms(4) by (rule notify_posts)
  show "fst (handleWebhook Z w env wh) = Inr () \<longrightarrow>
           (\<exists>tok. payment_posts (aspin (snd (handleWebhook Z w env wh)))
               = payment_posts (aspin w) @ [(tok, p)])"
    unfolding a r assms(4) using notify_posts_ok by blast
qed

text \<open>
  C5, as the code has it. For a delivery with outcome completed or failed that reaches
  the notifier (no unexpired ledger entry, known transaction), the notifier is invoked
  exactly once, with a payload whose \<open>amount_in_cents\<close> is the binary64 product of the
  recorded amount and 100: the notifier takes the recorded amount for whole currency
  units and converts it to cents. The product is exactly 100 times the recorded amount
  whenever that is below \<open>2 ^ 53\<close> in magnitude, and the binary64 number nearest to it
  beyond. That payload is the one POSTed, when a POST is made, and one is made whenever
  the delivery returns normally.
\<close>

theorem C5_notified_amount_is_hundredfold:
  assumes "\<not> ledger_holds (idempotency w) (t_get env) (transaction_id wh)"
    and "transactions w (transaction_id wh) = Some t"
    and "wh_status wh \<noteq> WPending"
  shows "\<exists>p. amount_in_cents p = binary64 (txn_amount t * 100)
     \<and> (\<bar>txn_amount t * 100\<bar> < 2 ^ 53 \<longrightarrow> amount_in_cents p = Some (txn_amount t * 100))
     \<and> policy_guid p = policyGuid t
     \<and> notifier_invocations (aspin (snd (handleWebhook Z w env wh)))
         = notifier_invocations (aspin w) @ [p]
     \<and> (payment_posts (aspin (snd (handleWebhook Z w env wh))) = payment_posts (aspin w)
         \<or> (\<exists>tok. payment_posts (aspin (snd (handleWebhook Z w env wh)))
               = payment_posts (aspin w) @ [(tok, p)]))
     \<and> (fst (handleWebhook Z w env wh) = Inr () \<longrightarrow>
           (\<exists>tok. payment_posts (aspin (snd (handleWebhook Z w env wh)))
               = payment_posts (aspin w) @ [(tok, p)]))"
proof -
  let ?p = "payload_of (if wh_status wh = WCompleted then Succeeded else AspinFailed)
      (policyGuid t) (txn_amount t) (mnoReference_of wh) (effectedAt_of env)"
  have "amount_in_cents ?p = binary64 (txn_amount t * 100)" "policy_guid ?p = policyGuid t"
    by (simp_all add: payload_of_def)
  moreover have "\<bar>txn_amount t * 100\<bar> < 2 ^ 53 \<longrightarrow>
      amount_in_cents ?p = Some (txn_amount t * 100)"
    by (simp add: payload_of_def binary64_exact)
  ultimately show ?thesis
    using handleWebhook_notified [OF assms refl, of Z] by blast
qed

theorem C5_notified_amount_is_hundredfold_witness:
  "\<not> ledger_holds (idempotency (world0 Pending)) (t_get (wenv0 1000 True))
       (transaction_id (webhook0 WCompleted))
   \<and> transactions (world0 Pending) (transaction_id (webhook0 WCompleted))
       = Some (txn0\<lparr>txn_status := Pending\<rparr>)
   \<and> wh_status (webhook0 WCompleted) \<noteq> WPending
   \<and> \<bar>txn_amount (txn0\<lparr>txn_status := Pending\<rparr>) * 100\<bar> < 2 ^ 53
   \<and> (\<exists>p. amount_in_cents p = Some 500000
        \<and> notifier_invocations (aspin (snd (handleWebhook Z0 (world0 Pending) (wenv0 1000 True)
             (webhook0 WCompleted)))) = [p])"
proof -
  let ?w = "world0 Pending" and ?env = "wenv0 1000 True" and ?wh = "webhook0 WCompleted"
  have h1: "\<not> ledger_holds (idempotency ?w) (t_get ?env) (transaction_id ?wh)"
    by (simp add: data_defs ledger_holds_def)
  have h2: "transactions ?w (transaction_id ?wh) = Some (txn0\<lparr>txn_status := Pending\<rparr>)"
    by (simp add: data_defs)
  have h3: "wh_status ?wh \<noteq> WPending"
    by (simp add: webhook0_def)
  have h4: "\<bar>txn_amount (txn0\<lparr>txn_status := Pending\<rparr>) * 100\<bar> < 2 ^ 53"
    by (simp add: txn0_def)
  have e: "notifier_invocations (aspin ?w) = []"
    "txn_amount (txn0\<lparr>txn_status := Pending\<rparr>) * 100 = 500000"
    by (simp_all add: data_defs)
  from C5_notified_amount_is_hundredfold [OF h1 h2 h3, of Z0] h4
  have "\<exists>p. amount_in_cents p = Some 500000
        \<and> notifier_invocations (aspin (snd (handleWebhook Z0 ?w ?env ?wh))) = [p]"
    unfolding e by auto
  with h1 h2 h3 h4 show ?thesis by blast
qed

text \<open>
  C5 as stated fails: the record holds 5000 and the settlement endpoint is sent 500000.
\<close>

theorem C5_amount_converted_counterexample:
  "map_option txn_amount (transactions (world0 Pending) ''TXN_123456'') = Some 5000
   \<and> fst (handleWebhook Z0 (world0 Pending) (wenv0 1000 True) (webhook0 WCompleted)) = Inr ()
   \<and> map (\<lambda>(tok, p). amount_in_cents p)
        (payment_posts (aspin (snd (handleWebhook Z0 (world0 Pending) (wenv0 1000 True)
           (webhook0 WCompleted))))) = [Some 500000]"
  by (simp add: data_defs run_defs binary64_exact)

text \<open>
  With a validation library whose \<open>int()\<close> stops at \<open>2 ^ 53 - 1\<close>, a recorded
  amount of 360287970189641 makes the rounded product 36028797018964096, which the
  schema refuses.
\<close>

lemma rounded_amount_refused:
  "fst (handleWebhook Z0
      ((world0 Pending)\<lparr>transactions :=
          [''TXN_123456'' \<mapsto> txn0\<lparr>txn_amount := 360287970189641, txn_currency := UGX\<rparr>]\<rparr>)
      (wenv0 1000 True) (webhook0 WCompleted)) = Inl ZodError
   \<and> map amount_in_cents (notifier_invocations (aspin (snd (handleWebhook Z0
      ((world0 Pending)\<lparr>transactions :=
          [''TXN_123456'' \<mapsto> txn0\<lparr>txn_amount := 360287970189641, txn_currency := UGX\<rparr>]\<rparr>)
      (wenv0 1000 True) (webhook0 WCompleted))))) = [Some 36028797018964096]"
  by (simp add: data_defs run_defs binary64_rounds [simplified])

section \<open>The same webhook, delivered again\<close>

lemma deliveries_skipped:
  "\<forall>e \<in> set envs. ledger_holds (idempotency w) (t_get e) (transaction_id wh) \<Longrightarrow>
     deliveries Z w envs wh = (replicate (length envs) (Inr ()), w)"
  by (induction envs) (simp_all add: handleWebhook_duplicate)

text \<open>
  C2, as the code has it. Let a delivery with outcome completed or failed be processed
  to its end (the ledger did not answer for its transaction identifier, and the call
  returned normally), and let it be delivered again any number of times, each time
  before the ledger entry it wrote has expired, that is no later than the \<open>expiresAt\<close>
  the first delivery stored: the time of the write with \<open>ttl\<close> seconds added on the
  host's local clock. Then all deliveries return normally, the notifier has been
  invoked exactly once, and every delivery after the first leaves the whole world,
  registry and ledger included, unchanged.
\<close>

theorem C2_one_notification_within_ttl:
  assumes "wh_status wh \<noteq> WPending"
    and "\<not> ledger_holds (idempotency w) (t_get env) (transaction_id wh)"
    and "handleWebhook Z w env wh = (Inr (), w1)"
    and "\<forall>e \<in> set envs.
           \<not> expired_at (setSeconds_plus (zone env) (t_set env) (ttl (idempotency w))) (t_get e)"
  shows "deliveries Z w (env # envs) wh = (replicate (Suc (length envs)) (Inr ()), w1)
     \<and> length (notifier_invocations (aspin w1)) = Suc (length (notifier_invocations (aspin w)))
     \<and> (\<forall>e \<in> set envs. handleWebhook Z w1 e wh = (Inr (), w1))"
proof -
  have holds: "\<forall>e \<in> set envs. ledger_holds (idempotency w1) (t_get e) (transaction_id wh)"
    using ledger_after_processed [OF assms(2,3)] assms(4) by blast
  have "deliveries Z w (env # envs) wh = (replicate (Suc (length envs)) (Inr ()), w1)"
    by (simp add: assms(3) deliveries_skipped [OF holds])
  moreover from assms(2,3) obtain t where "transactions w (transaction_id wh) = Some t"
    by (rule handleWebhook_processed)
  from handleWebhook_notified(1) [OF assms(2) this assms(1) refl, of Z]
  have "length (notifier_invocations (aspin w1)) = Suc (length (notifier_invocations (aspin w)))"
    by (simp add: assms(3))
  moreover have "\<forall>e \<in> set envs. handleWebhook Z w1 e wh = (Inr (), w1)"
    using holds handleWebhook_duplicate by blast
  ultimately show ?thesis by blast
qed

theorem C2_one_notification_within_ttl_witness:
  "wh_status (webhook0 WCompleted) \<noteq> WPending
   \<and> \<not> ledger_holds (idempotency (world0 Pending)) (t_get (wenv0 1000 True))
         (transaction_id (webhook0 WCompleted))
   \<and> fst (handleWebhook Z0 (world0 Pending) (wenv0 1000 True) (webhook0 WCompleted)) = Inr ()
   \<and> \<not> expired_at (setSeconds_plus (zone (wenv0 1000 True)) (t_set (wenv0 1000 True))
          (ttl (idempotency (world0 Pending)))) (t_get (wenv0 2000 False))
   \<and> \<not> expired_at (setSeconds_plus (zone (wenv0 1000 True)) (t_set (wenv0 1000 True))
          (ttl (idempotency (world0 Pending)))) (t_get (wenv0 86401000 True))
   \<and> fst (deliveries Z0 (world0 Pending) [wenv0 1000 True, wenv0 2000 False, wenv0 86401000 True]
        (webhook0 WCompleted)) = [Inr (), Inr (), Inr ()]
   \<and> length (notifier_invocations (aspin (snd (deliveries Z0 (world0 Pending)
        [wenv0 1000 True, wenv0 2000 False, wenv0 86401000 True] (webhook0 WCompleted))))) = 1"
proof -
  let ?w = "world0 Pending" and ?env = "wenv0 1000 True" and ?wh = "webhook0 WCompleted"
  let ?envs = "[wenv0 2000 False, wenv0 86401000 True]"
  let ?w1 = "snd (handleWebhook Z0 ?w ?env ?wh)"
  have h1: "wh_status ?wh \<noteq> WPending"
    by (simp add: webhook0_def)
  have h2: "\<not> ledger_holds (idempotency ?w) (t_get ?env) (transaction_id ?wh)"
    by (simp add: data_defs ledger_holds_def)
  have f: "fst (handleWebhook Z0 ?w ?env ?wh) = Inr ()"
    by (simp add: data_defs run_defs binary64_exact)
  then have h3: "handleWebhook Z0 ?w ?env ?wh = (Inr (), ?w1)"
    by (metis prod.collapse)
  have a: "\<not> expired_at (setSeconds_plus (zone ?env) (t_set ?env) (ttl (idempotency ?w)))
      (t_get (wenv0 2000 False))"
    and b: "\<not> expired_at (setSeconds_plus (zone ?env) (t_set ?env) (ttl (idempotency ?w)))
      (t_get (wenv0 86401000 True))"
    by (simp_all add: data_defs setSeconds_plus_def TimeClip_def expired_at_def)
  then have h4: "\<forall>e \<in> set ?envs.
      \<not> expired_at (setSeconds_plus (zone ?env) (t_set ?env) (ttl (idempotency ?w))) (t_get e)"
    by simp
  have e: "notifier_invocations (aspin ?w) = []"
    by (simp add: data_defs)
  from C2_one_notification_within_ttl [OF h1 h2 h3 h4] e
  have "deliveries Z0 ?w (?env # ?envs) ?wh = (replicate (Suc (length ?envs)) (Inr ()), ?w1)"
    and "length (notifier_invocations (aspin ?w1)) = 1"
    by simp_all
  with h1 h2 f a b show ?thesis by simp
qed

text \<open>
  C2 as stated fails twice over: a pending webhook delivered once invokes the notifier
  zero times, and a completed webhook delivered a second time after the ledger entry
  has expired invokes it a second time.
\<close>

theorem C2_pending_or_expired_counterexample:
  "length (notifier_invocations (aspin (snd (deliveries Z0 (world0 Pending)
      [wenv0 1000 True] (webhook0 WPending))))) = 0
   \<and> length (notifier_invocations (aspin (snd (deliveries Z0 (world0 Pending)
      [wenv0 1000 True, wenv0 86401001 True] (webhook0 WCompleted))))) = 2"
  by (simp add: data_defs run_defs binary64_exact)

text \<open>
  The expiry is reckoned on the local clock: in the United Kingdom a completed webhook
  processed on 28 March 2026 at 12:00 UTC and delivered again 23 hours and 1 ms later
  is processed, and notified, a second time.
\<close>

lemma redelivery_across_clock_change:
  "length (notifier_invocations (aspin (snd (deliveries Z0 (world0 Pending)
      [wenv_in london 1774699200000 True, wenv_in london (1774699200000 + 82800001) True]
      (webhook0 WCompleted))))) = 2"
  by (simp add: data_defs run_defs binary64_exact london_def)

section \<open>Pending deliveries\<close>

text \<open>
  C3, as the code has it. A delivery with outcome pending never invokes the notifier
  and leaves the outbound side untouched. It is a no-op only when the ledger answers
  for the transaction. Otherwise, for a known transaction, it returns normally after
  setting the record's status to pending and its \<open>updatedAt\<close>, and after writing a
  ledger entry for the transaction identifier; for an unknown one it fails with
  \<open>TransactionNotFound\<close>.
\<close>

theorem C3_pending_delivery:
  assumes "wh_status wh = WPending"
  shows "aspin (snd (handleWebhook Z w env wh)) = aspin w
     \<and> (ledger_holds (idempotency w) (t_get env) (transaction_id wh) \<longrightarrow>
           handleWebhook Z w env wh = (Inr (), w))
     \<and> (\<not> ledger_holds (idempotency w) (t_get env) (transaction_id wh) \<longrightarrow>
          (case transactions w (transaction_id wh) of
             None \<Rightarrow> fst (handleWebhook Z w env wh) = Inl (TransactionNotFound (transaction_id wh))
           | Some t \<Rightarrow>
               handleWebhook Z w env wh =
                 (Inr (),
                  w\<lparr>idempotency := idempotency_set (zone env) (idempotency w) (t_set env)
                       (transaction_id wh)
                       \<lparr>processed = True, receipt_timestamp = t_stamp env,
                        receipt_status = WPending\<rparr>,
                    transactions := (transactions w)(transaction_id wh \<mapsto>
                       t\<lparr>txn_status := Pending, updatedAt := t_updated env\<rparr>)\<rparr>)))"
proof (cases "ledger_holds (idempotency w) (t_get env) (transaction_id wh)")
  case True
  then show ?thesis by (simp add: handleWebhook_duplicate)
next
  case miss: False
  show ?thesis
  proof (cases "transactions w (transaction_id wh)")
    case None
    with miss show ?thesis by (simp add: handleWebhook_unknown)
  next
    case (Some t)
    have "notifyAspin (wh_status wh) Z (aspin w) (notifier env) (policyGuid t) (txn_amount t)
           (mnoReference_of wh) (effectedAt_of env) = (Inr (), aspin w)"
      by (simp add: assms)
    from handleWebhook_known [OF miss Some this] miss Some show ?thesis
      by (simp add: assms)
  qed
qed

theorem C3_pending_delivery_witness:
  "wh_status (webhook0 WPending) = WPending
   \<and> aspin (snd (handleWebhook Z0 (world0 Processing) (wenv0 1000 True) (webhook0 WPending)))
       = aspin (world0 Processing)"
proof -
  have h: "wh_status (webhook0 WPending) = WPending" by (simp add: webhook0_def)
  from C3_pending_delivery [OF h, of Z0 "world0 Processing" "wenv0 1000 True"] h
  show ?thesis by blast
qed

text \<open>
  C3 as stated fails: a pending delivery for a completed record that the ledger does
  not answer for (the state a completed delivery leaves when its notifier call failed)
  moves the record back to pending and writes a ledger entry.
\<close>

theorem C3_pending_changes_state_counterexample:
  "store (idempotency (world0 Completed)) ''TXN_123456'' = None
   \<and> map_option txn_status (transactions (world0 Completed) ''TXN_123456'') = Some Completed
   \<and> store (idempotency (snd (handleWebhook Z0 (world0 Completed) (wenv0 1000 True)
        (webhook0 WPending)))) ''TXN_123456''
       = Some \<lparr>key = ''TXN_123456'',
               response = \<lparr>processed = True, receipt_timestamp = 1000, receipt_status = WPending\<rparr>,
               expiresAt = Some 86401000\<rparr>
   \<and> map_option txn_status (transactions (snd (handleWebhook Z0 (world0 Completed)
        (wenv0 1000 True) (webhook0 WPending))) ''TXN_123456'') = Some Pending"
  by (simp add: data_defs run_defs)

section \<open>Initiated records\<close>

lemma handleWebhook_fixed_fields:
  "map_option fixed_fields (transactions (snd (handleWebhook Z w env wh)) k)
     = map_option fixed_fields (transactions w k)"
proof (cases "ledger_holds (idempotency w) (t_get env) (transaction_id wh)")
  case True
  then show ?thesis by (simp add: handleWebhook_duplicate)
next
  case miss: False
  show ?thesis
  proof (cases "transactions w (transaction_id wh)")
    case None
    with miss show ?thesis by (simp add: handleWebhook_unknown)
  next
    case (Some t)
    obtain r a where n: "notifyAspin (wh_status wh) Z (aspin w) (notifier env) (policyGuid t)
        (txn_amount t) (mnoReference_of wh) (effectedAt_of env) = (r, a)"
      by (cases "notifyAspin (wh_status wh) Z (aspin w) (notifier env) (policyGuid t)
        (txn_amount t) (mnoReference_of wh) (effectedAt_of env)")
    show ?thesis
      using Some by (cases r) (auto simp: handleWebhook_known [OF miss Some n] fixed_fields_def)
  qed
qed

lemma initiatePayment_other_records:
  "k \<noteq> ''TXN_'' @ uuid12 (txn_uuid env) \<Longrightarrow>
     transactions (snd (initiatePayment w env request)) k = transactions w k"
  by (simp add: initiatePayment_def Let_def split: sum.splits)

lemma step_fixed_fields:
  "created_id ev \<noteq> Some k \<Longrightarrow>
     map_option fixed_fields (transactions (step Z w ev) k)
       = map_option fixed_fields (transactions w k)"
  by (cases ev) (simp_all add: handleWebhook_fixed_fields initiatePayment_other_records)

lemma run_fixed_fields:
  "\<forall>ev \<in> set evs. created_id ev \<noteq> Some k \<Longrightarrow>
     map_option fixed_fields (transactions (run Z w evs) k)
       = map_option fixed_fields (transactions w k)"
  unfolding run_def
  by (induction evs arbitrary: w) (simp_all add: step_fixed_fields)

lemma gateway_initiatePayment_status:
  "gateway_initiatePayment g env params = Inr res \<Longrightarrow> res_status res = Pending"
  by (cases g)
    (auto simp: initiateMpesaPayment_def initiateAirtelPayment_def split: sum.splits)

lemma initiatePayment_success:
  assumes "initiatePayment w env request = (Inr out, w')"
  shows "out_transactionId out = ''TXN_'' @ uuid12 (txn_uuid env)"
    and "out_status out = Pending"
    and "\<exists>t. transactions w' (out_transactionId out) = Some t \<and> txn_status t = Pending
           \<and> txn_amount t = req_amount request \<and> txn_currency t = req_currency request"
  using assms
  by (auto simp: initiatePayment_def Let_def split: if_splits sum.splits
      dest: gateway_initiatePayment_status)

text \<open>
  C4, as the code has it. After \<open>initiatePayment\<close> succeeds the record is in status
  pending, the status both channel adapters return, and so is the status reported to
  the caller. Its amount and currency are those of the request, and they stay so under
  every later sequence of webhook deliveries and of initiations that generate another
  transaction identifier.
\<close>

theorem C4_initiated_record_pending_amount_fixed:
  assumes "initiatePayment w env request = (Inr out, w')"
    and "\<forall>ev \<in> set evs. created_id ev \<noteq> Some (out_transactionId out)"
  shows "out_status out = Pending
     \<and> map_option txn_status (transactions w' (out_transactionId out)) = Some Pending
     \<and> map_option txn_amount (transactions (run Z w' evs) (out_transactionId out))
         = Some (req_amount request)
     \<and> map_option txn_currency (transactions (run Z w' evs) (out_transactionId out))
         = Some (req_currency request)"
proof -
  from initiatePayment_success(3) [OF assms(1)] obtain t where
    t: "transactions w' (out_transactionId out) = Some t" "txn_status t = Pending"
      "txn_amount t = req_amount request" "txn_currency t = req_currency request"
    by blast
  from run_fixed_fields [OF assms(2), of Z w'] t(1)
  obtain t' where t': "transactions (run Z w' evs) (out_transactionId out) = Some t'"
    "fixed_fields t' = fixed_fields t"
    by auto
  from t' t show ?thesis
    by (simp add: initiatePayment_success(2) [OF assms(1)] fixed_fields_def)
qed

theorem C4_initiated_record_pending_amount_fixed_witness:
  "fst (initiatePayment (world0 Pending) ienv0 (request0 5000))
     = Inr \<lparr>out_transactionId = ''TXN_9b2f7c1e5a4d'', out_status = Pending\<rparr>
   \<and> map_option txn_amount
       (transactions
          (run Z0 (snd (initiatePayment (world0 Pending) ienv0 (request0 5000)))
             [Webhook (wenv0 1000 True)
                ((webhook0 WCompleted)\<lparr>transaction_id := ''TXN_9b2f7c1e5a4d'', wh_amount := 1\<rparr>),
              Initiate ienv1 (request0 5000)])
          ''TXN_9b2f7c1e5a4d'') = Some 5000"
proof -
  let ?w = "world0 Pending"
  let ?out = "\<lparr>out_transactionId = ''TXN_9b2f7c1e5a4d'', out_status = Pending\<rparr>"
  let ?w' = "snd (initiatePayment ?w ienv0 (request0 5000))"
  let ?evs = "[Webhook (wenv0 1000 True)
                ((webhook0 WCompleted)\<lparr>transaction_id := ''TXN_9b2f7c1e5a4d'', wh_amount := 1\<rparr>),
              Initiate ienv1 (request0 5000)]"
  have f: "fst (initiatePayment ?w ienv0 (request0 5000)) = Inr ?out"
    by (simp add: init_defs Let_def)
  then have h1: "initiatePayment ?w ienv0 (request0 5000) = (Inr ?out, ?w')"
    by (metis prod.collapse)
  have h2: "\<forall>ev \<in> set ?evs. created_id ev \<noteq> Some (out_transactionId ?out)"
    by (simp add: ienv1_def ienv0_def uuid12_def)
  from C4_initiated_record_pending_amount_fixed [OF h1 h2, of Z0]
  have "map_option txn_amount (transactions (run Z0 ?w' ?evs) ''TXN_9b2f7c1e5a4d'')
      = Some (req_amount (request0 5000))"
    by simp
  with f show ?thesis by (simp add: request0_def)
qed

text \<open>
  C4 as stated fails: after a successful initiation the record is pending, not
  processing.
\<close>

theorem C4_initiated_record_not_processing_counterexample:
  "fst (initiatePayment (world0 Pending) ienv0 (request0 5000))
     = Inr \<lparr>out_transactionId = ''TXN_9b2f7c1e5a4d'', out_status = Pending\<rparr>
   \<and> map_option txn_status
       (transactions (snd (initiatePayment (world0 Pending) ienv0 (request0 5000)))
          ''TXN_9b2f7c1e5a4d'') = Some Pending
   \<and> map_option txn_status
       (transactions (snd (initiatePayment (world0 Pending) ienv0 (request0 5000)))
          ''TXN_9b2f7c1e5a4d'') \<noteq> Some Processing"
  by (simp add: init_defs Let_def)

section \<open>Overlapping calls of the credential cache\<close>

lemma token_valid_send: "token_valid (authenticate_send a) now = token_valid a now"
  by (simp add: token_valid_def authenticate_send_def split: option.splits)

lemma invoke_all:
  "\<forall>now \<in> set ts. \<not> token_valid (service r) now \<Longrightarrow>
     oauth_requests (service (foldl auth_step r (map Invoke ts)))
       = oauth_requests (service r) + length ts
   \<and> in_flight (foldl auth_step r (map Invoke ts)) = in_flight r + length ts"
proof (induction ts arbitrary: r)
  case Nil
  then show ?case by simp
next
  case (Cons now ts)
  let ?r = "r\<lparr>service := authenticate_send (service r), in_flight := Suc (in_flight r)\<rparr>"
  from Cons.prems have "\<forall>now \<in> set ts. \<not> token_valid (service ?r) now"
    by (simp add: token_valid_send)
  from Cons.IH [OF this] Cons.prems show ?case
    by (simp add: authenticate_send_def)
qed

text \<open>
  C9, as the code has it. The cache keeps no in-flight request to share. Calls of
  \<open>getAccessToken\<close> that start while the cached credential is absent or expired, and
  before any of them has got its reply, issue one POST to \<open>/oauth/token\<close> each: N
  overlapping callers make N re-authentication calls, and all N wait for their own
  reply. A call reuses a token only when it starts after a reply has been stored and
  before the stored expiry.
\<close>

theorem C9_one_request_per_overlapping_caller:
  assumes "\<forall>now \<in> set ts. \<not> token_valid (service r) now"
  shows "oauth_requests (service (auth_schedule r (map Invoke ts)))
           = oauth_requests (service r) + length ts
     \<and> in_flight (auth_schedule r (map Invoke ts)) = in_flight r + length ts
     \<and> (0 < in_flight r' \<and> access_token tokenData \<noteq> []
           \<and> setSeconds_plus (host_zone r') t (Some (expires_in tokenData - 60)) = Some e
           \<and> now' < e \<longrightarrow>
         auth_step (auth_step r' (Settle (Some tokenData) t)) (Invoke now')
           = auth_step r' (Settle (Some tokenData) t))"
proof -
  have "0 < in_flight r' \<and> access_token tokenData \<noteq> []
           \<and> setSeconds_plus (host_zone r') t (Some (expires_in tokenData - 60)) = Some e
           \<and> now' < e \<longrightarrow>
         auth_step (auth_step r' (Settle (Some tokenData) t)) (Invoke now')
           = auth_step r' (Settle (Some tokenData) t)"
    by (simp add: token_valid_def authenticate_resume_def)
  with invoke_all [OF assms] show ?thesis
    unfolding auth_schedule_def by blast
qed

theorem C9_one_request_per_overlapping_caller_witness:
  "\<not> token_valid auth0 0 \<and> \<not> token_valid auth0 1 \<and> \<not> token_valid auth0 2
   \<and> oauth_requests (service (auth_schedule \<lparr>service = auth0, in_flight = 0, host_zone = utc\<rparr>
        (map Invoke [0, 1, 2]))) = 3"
proof -
  let ?r = "\<lparr>service = auth0, in_flight = 0, host_zone = utc\<rparr>"
  have h: "\<forall>now \<in> set [0, 1, 2]. \<not> token_valid (service ?r) now"
    by (simp add: token_valid_def auth0_def)
  from C9_one_request_per_overlapping_caller [OF h] h show ?thesis
    by (simp add: auth0_def)
qed

text \<open>
  C9 as stated fails: two overlapping calls on an empty cache make two
  re-authentication calls.
\<close>

theorem C9_two_callers_two_requests_counterexample:
  "\<not> token_valid auth0 0
   \<and> oauth_requests (service (auth_schedule \<lparr>service = auth0, in_flight = 0, host_zone = utc\<rparr>
        [Invoke 0, Invoke 0, Settle (Some token0) 5, Settle (Some token0) 6])) = 2"
  by (simp add: auth_schedule_def token_valid_def auth0_def authenticate_send_def
      authenticate_resume_def token0_def setSeconds_plus_def TimeClip_def utc_def)

end
